theory Spec2Isabelle
  imports Complex_Main
begin

section \<open>Python values and library functions used by the agents\<close>

text \<open>
  Titles are modelled as ASCII strings: a \<^typ>\<open>char\<close> is one code point below 128,
  and characters above that range are treated as neither word characters, nor
  whitespace, nor cased. Python floats are modelled as exact rationals.
\<close>

datatype error = KeyError | ValueError | TypeError | OtherError

text \<open>A JSON value as the agents read it from a listing or a payload.\<close>

datatype pyval = PyNum rat | PyStr string | PyNone

text \<open>\<open>\w\<close> of the \<open>re\<close> module on ASCII: letters, digits and the underscore.\<close>

definition is_word :: "char \<Rightarrow> bool" where
  "is_word c = (let n = (of_char c :: int) in
     (48 \<le> n \<and> n \<le> 57) \<or> (65 \<le> n \<and> n \<le> 90) \<or> n = 95 \<or> (97 \<le> n \<and> n \<le> 122))"

text \<open>\<open>\s\<close> and \<open>str.isspace\<close> on ASCII: tab to carriage return, the four
  separators 0x1c to 0x1f, and the space.\<close>

definition is_space :: "char \<Rightarrow> bool" where
  "is_space c = (let n = (of_char c :: int) in
     (9 \<le> n \<and> n \<le> 13) \<or> (28 \<le> n \<and> n \<le> 32))"

definition lower_char :: "char \<Rightarrow> char" where
  "lower_char c =
     (case map_of (zip ''ABCDEFGHIJKLMNOPQRSTUVWXYZ'' ''abcdefghijklmnopqrstuvwxyz'') c of
        Some d \<Rightarrow> d | None \<Rightarrow> c)"

definition py_lower :: "string \<Rightarrow> string" where
  "py_lower s = map lower_char s"

definition py_strip :: "string \<Rightarrow> string" where
  "py_strip s = rev (dropWhile is_space (rev (dropWhile is_space s)))"

text \<open>\<open>str.split()\<close> with no argument: the maximal runs of non-whitespace.\<close>

fun split_ws :: "string \<Rightarrow> string \<Rightarrow> string list" where
  "split_ws cur [] = (if cur = [] then [] else [cur])"
| "split_ws cur (c # cs) =
     (if is_space c then (if cur = [] then split_ws [] cs else cur # split_ws [] cs)
      else split_ws (cur @ [c]) cs)"

definition py_split :: "string \<Rightarrow> string list" where
  "py_split s = split_ws [] s"

fun py_join :: "string \<Rightarrow> string list \<Rightarrow> string" where
  "py_join sep [] = []"
| "py_join sep [w] = w"
| "py_join sep (w # ws) = w @ sep @ py_join sep ws"

text \<open>
  \<open>round(x, 3)\<close>: the nearest multiple of one thousandth, a tie going to the even
  one.
\<close>

definition round_half_even :: "rat \<Rightarrow> int" where
  "round_half_even y = (let f = \<lfloor>y\<rfloor>; d = y - of_int f in
     if d < 1 / 2 then f else if 1 / 2 < d then f + 1 else if even f then f else f + 1)"

definition py_round :: "rat \<Rightarrow> nat \<Rightarrow> rat" where
  "py_round x n = of_int (round_half_even (x * 10 ^ n)) / 10 ^ n"

section \<open>Text normalizer (\<open>agents/identify_products.py\<close>)\<close>

text \<open>\<open>re.sub(r'[^\w\s\-\?\!]', ' ', s)\<close>.\<close>

definition keep_char :: "char \<Rightarrow> bool" where
  "keep_char c = (is_word c \<or> is_space c \<or> c = CHR ''-'' \<or> c = CHR ''?'' \<or> c = CHR ''!'')"

definition re_sub_special :: "string \<Rightarrow> string" where
  "re_sub_special s = map (\<lambda>c. if keep_char c then c else CHR '' '') s"

text \<open>
  \<open>re.sub(r'\b' + re.escape(old) + r'\b', new, s)\<close> for a non-empty \<open>old\<close>: the
  string is scanned from the left; \<open>prev\<close> is the character before the current
  position, if there is one. A match needs the literal \<open>old\<close> with a word boundary
  before it and one after it; the scan resumes behind the match. The table below has
  no empty key, so the function has no equation for one.
\<close>

fun starts_with :: "string \<Rightarrow> string \<Rightarrow> bool" where
  "starts_with [] s = True"
| "starts_with (k # ks) [] = False"
| "starts_with (k # ks) (c # cs) = (if k = c then starts_with ks cs else False)"

definition word_at :: "char option \<Rightarrow> bool" where
  "word_at p = (case p of None \<Rightarrow> False | Some c \<Rightarrow> is_word c)"

definition boundary :: "char option \<Rightarrow> char option \<Rightarrow> bool" where
  "boundary before after = (word_at before \<noteq> word_at after)"

definition first_char :: "string \<Rightarrow> char option" where
  "first_char s = (case s of [] \<Rightarrow> None | c # _ \<Rightarrow> Some c)"

fun re_sub_word :: "string \<Rightarrow> string \<Rightarrow> char option \<Rightarrow> string \<Rightarrow> string" where
  "re_sub_word (k # ks) new prev [] = []"
| "re_sub_word (k # ks) new prev (c # cs) =
     (if starts_with (k # ks) (c # cs) then
        (if boundary prev (Some c)
            \<and> boundary (Some (last (k # ks))) (first_char (drop (length ks) cs))
         then new @ re_sub_word (k # ks) new (Some (last (k # ks))) (drop (length ks) cs)
         else c # re_sub_word (k # ks) new (Some c) cs)
      else c # re_sub_word (k # ks) new (Some c) cs)"

definition replacements :: "(string \<times> string) list" where
  "replacements =
    [(''trump'', ''donald trump''),
     (''biden'', ''joe biden''),
     (''harris'', ''kamala harris''),
     (''democrats'', ''democratic party''),
     (''republicans'', ''republican party''),
     (''gop'', ''republican party''),
     (''dems'', ''democratic party''),
     (''senate'', ''us senate''),
     (''house'', ''us house''),
     (''congress'', ''us congress''),
     (''presidency'', ''president''),
     (''presidential'', ''president''),
     (''2024'', ''2024 election''),
     (''2025'', ''2025''),
     (''next'', ''upcoming''),
     (''win'', ''victory''),
     (''wins'', ''victory''),
     (''elected'', ''victory''),
     (''control'', ''majority''),
     (''controls'', ''majority''),
     (''above'', ''over''),
     (''below'', ''under''),
     (''reaches'', ''hits''),
     (''exceeds'', ''over'')]"

definition apply_replacements :: "string \<Rightarrow> string" where
  "apply_replacements s = fold (\<lambda>(old, new) acc. re_sub_word old new None acc) replacements s"

definition normalize_product_name :: "string \<Rightarrow> string" where
  "normalize_product_name product_name =
     (if product_name = [] then []
      else py_join '' '' (py_split (apply_replacements (re_sub_special (py_strip (py_lower product_name))))))"

definition stop_words :: "string set" where
  "stop_words = set [''the'', ''a'', ''an'', ''and'', ''or'', ''but'', ''in'', ''on'', ''at'', ''to'',
     ''for'', ''of'', ''with'', ''by'', ''will'', ''be'', ''is'', ''are'', ''was'', ''were'']"

definition extract_keywords :: "string \<Rightarrow> string set" where
  "extract_keywords text =
     set (filter (\<lambda>word. 2 < length word \<and> word \<notin> stop_words)
            (py_split (normalize_product_name text)))"

section \<open>Similarity scorer\<close>

text \<open>
  The rationale string of a verdict or a group, by its content: the seed text, the
  rule-based text with its two rounded sub-scores, the engine's default text, or a text
  the external model gave.
\<close>

datatype reasoning = Primary_product | Rule_based rat rat | AI_powered_matching | Reasoning_text string

record verdict =
  same_event :: bool
  confidence :: rat
  unified_name :: string
  reasoning :: "reasoning option"

subsection \<open>The sequence ratio of \<open>difflib\<close>\<close>

text \<open>
  \<open>difflib.SequenceMatcher(None, a, b).ratio()\<close> is a library call. The scorer below
  takes it as the parameter \<open>ratio\<close>. The definitions of this subsection follow the
  library's documented algorithm for a second sequence shorter than 200 elements
  (no junk, no popularity heuristic): the longest matching block, the earliest in
  \<open>a\<close> and then in \<open>b\<close> among the longest, then the same on both sides of it.
\<close>

fun common_prefix_len :: "'a list \<Rightarrow> 'a list \<Rightarrow> nat" where
  "common_prefix_len (x # xs) (y # ys) = (if x = y then Suc (common_prefix_len xs ys) else 0)"
| "common_prefix_len _ _ = 0"

text \<open>
  The scan of \<open>find_longest_match\<close>: every start \<open>i\<close> in \<open>a\<close> in increasing order
  and, for each, every start \<open>j\<close> in \<open>b\<close> in increasing order; a block replaces the
  best one so far only when it is strictly longer.
\<close>

fun best_in_b :: "'a list \<Rightarrow> nat \<Rightarrow> 'a list \<Rightarrow> nat \<Rightarrow> nat \<times> nat \<times> nat \<Rightarrow> nat \<times> nat \<times> nat" where
  "best_in_b sa i [] j best = best"
| "best_in_b sa i (y # ys) j best =
     best_in_b sa i ys (Suc j)
       (if snd (snd best) < common_prefix_len sa (y # ys)
        then (i, j, common_prefix_len sa (y # ys)) else best)"

fun best_in_a :: "'a list \<Rightarrow> nat \<Rightarrow> 'a list \<Rightarrow> nat \<times> nat \<times> nat \<Rightarrow> nat \<times> nat \<times> nat" where
  "best_in_a [] i b best = best"
| "best_in_a (x # xs) i b best = best_in_a xs (Suc i) b (best_in_b (x # xs) i b 0 best)"

definition find_longest_match :: "'a list \<Rightarrow> 'a list \<Rightarrow> nat \<times> nat \<times> nat" where
  "find_longest_match a b = best_in_a a 0 b (0, 0, 0)"

lemma common_prefix_len_le: "common_prefix_len xs ys \<le> length xs"
  by (induction xs ys rule: common_prefix_len.induct) auto

lemma best_in_b_bound:
  "fst best + snd (snd best) \<le> n \<Longrightarrow> i + length sa \<le> n
   \<Longrightarrow> fst (best_in_b sa i sb j best) + snd (snd (best_in_b sa i sb j best)) \<le> n"
proof (induction sb arbitrary: j best)
  case Nil
  then show ?case by simp
next
  case (Cons y ys)
  have "i + common_prefix_len sa (y # ys) \<le> n"
    using common_prefix_len_le [of sa "y # ys"] Cons.prems(2) by linarith
  then show ?case
    using Cons.prems by (auto intro!: Cons.IH)
qed

lemma best_in_a_bound:
  "fst best + snd (snd best) \<le> n \<Longrightarrow> i + length sa \<le> n
   \<Longrightarrow> fst (best_in_a sa i b best) + snd (snd (best_in_a sa i b best)) \<le> n"
proof (induction sa arbitrary: i best)
  case Nil
  then show ?case by simp
next
  case (Cons x xs)
  have "fst (best_in_b (x # xs) i b 0 best) + snd (snd (best_in_b (x # xs) i b 0 best)) \<le> n"
    using Cons.prems by (rule best_in_b_bound)
  then show ?case
    using Cons.prems(2) by (auto intro!: Cons.IH)
qed

lemma find_longest_match_bound:
  "find_longest_match a b = (i, j, k) \<Longrightarrow> i + k \<le> length a"
  using best_in_a_bound [of "(0, 0, 0)" "length a" 0 a b]
  by (simp add: find_longest_match_def)

function matching_size :: "'a list \<Rightarrow> 'a list \<Rightarrow> nat" where
  "matching_size a b =
     (case find_longest_match a b of (i, j, k) \<Rightarrow>
        if k = 0 then 0
        else k + matching_size (take i a) (take j b)
               + matching_size (drop (i + k) a) (drop (j + k) b))"
  by pat_completeness auto
termination
proof (relation "measure (\<lambda>(a, b). length a)", goal_cases)
  case 1
  show ?case by simp
next
  case (2 a b i y j k)
  then have "find_longest_match a b = (i, j, k)" "0 < k" by auto
  from find_longest_match_bound [OF this(1)] \<open>0 < k\<close> show ?case by simp
next
  case (3 a b i y j k)
  then have "find_longest_match a b = (i, j, k)" "0 < k" by auto
  from find_longest_match_bound [OF this(1)] \<open>0 < k\<close> show ?case by simp
qed

definition sequence_ratio :: "string \<Rightarrow> string \<Rightarrow> rat" where
  "sequence_ratio a b =
     (if length a + length b = 0 then 1
      else 2 * of_nat (matching_size a b) / of_nat (length a + length b))"

subsection \<open>The rule-based scorer\<close>

definition jaccard_similarity :: "string set \<Rightarrow> string set \<Rightarrow> rat" where
  "jaccard_similarity keywords1 keywords2 =
     (if keywords1 \<union> keywords2 \<noteq> {}
      then of_nat (card (keywords1 \<inter> keywords2)) / of_nat (card (keywords1 \<union> keywords2))
      else 0)"

definition combined_similarity :: "(string \<Rightarrow> string \<Rightarrow> rat) \<Rightarrow> string \<Rightarrow> string \<Rightarrow> rat" where
  "combined_similarity ratio product1 product2 =
     jaccard_similarity (extract_keywords product1) (extract_keywords product2) * (7 / 10)
       + ratio (py_lower product1) (py_lower product2) * (3 / 10)"

definition calculate_similarity_rule_based ::
    "(string \<Rightarrow> string \<Rightarrow> rat) \<Rightarrow> string \<Rightarrow> string \<Rightarrow> verdict" where
  "calculate_similarity_rule_based ratio product1 product2 =
     \<lparr>same_event = (65 / 100 < combined_similarity ratio product1 product2),
      confidence = py_round (combined_similarity ratio product1 product2) 3,
      unified_name = (if length product1 \<le> length product2 then product1 else product2),
      reasoning = Some (Rule_based
        (py_round (jaccard_similarity (extract_keywords product1) (extract_keywords product2)) 2)
        (py_round (ratio (py_lower product1) (py_lower product2)) 2))\<rparr>"

subsection \<open>The semantic scorer and its fallback\<close>

text \<open>
  \<open>re.search(r'\{.*\}', text, re.DOTALL)\<close>: from the first opening brace to the last
  closing brace behind it.
\<close>

definition re_search_json :: "string \<Rightarrow> string option" where
  "re_search_json s =
     (let s1 = dropWhile (\<lambda>c. c \<noteq> CHR ''{'') s in
      if s1 = [] then None
      else (let body = rev (dropWhile (\<lambda>c. c \<noteq> CHR ''}'') (rev (tl s1))) in
            if body = [] then None else Some (CHR ''{'' # body)))"

text \<open>
  The body of the \<open>try\<close> block of \<open>calculate_similarity_llm\<close>. The environment is
  given by parameters: \<open>api_key\<close> is \<open>GEMINI_API_KEY\<close> (unset, or a string),
  \<open>completion\<close> is the call to the external model with the text of its answer (or
  the exception it raised), and \<open>json_loads\<close> decodes the matched text into the
  verdict dictionary (or raises). The decoded object is taken to carry the keys the
  prompt asks for.
\<close>

definition llm_attempt ::
    "string option \<Rightarrow> (string \<Rightarrow> string \<Rightarrow> error + string) \<Rightarrow> (string \<Rightarrow> error + verdict)
     \<Rightarrow> (string \<Rightarrow> string \<Rightarrow> rat) \<Rightarrow> string \<Rightarrow> string \<Rightarrow> error + verdict" where
  "llm_attempt api_key completion json_loads ratio product1 product2 =
     (if api_key = None \<or> api_key = Some [] then
        Inr (calculate_similarity_rule_based ratio product1 product2)
      else
        (case completion product1 product2 of
           Inl e \<Rightarrow> Inl e
         | Inr content \<Rightarrow>
             (case re_search_json (py_strip content) of
                Some json_match \<Rightarrow> json_loads json_match
              | None \<Rightarrow> Inr (calculate_similarity_rule_based ratio product1 product2))))"

definition calculate_similarity_llm ::
    "string option \<Rightarrow> (string \<Rightarrow> string \<Rightarrow> error + string) \<Rightarrow> (string \<Rightarrow> error + verdict)
     \<Rightarrow> (string \<Rightarrow> string \<Rightarrow> rat) \<Rightarrow> string \<Rightarrow> string \<Rightarrow> verdict" where
  "calculate_similarity_llm api_key completion json_loads ratio product1 product2 =
     (case llm_attempt api_key completion json_loads ratio product1 product2 of
        Inr result \<Rightarrow> result
      | Inl e \<Rightarrow> calculate_similarity_rule_based ratio product1 product2)"

section \<open>Unification engine (\<open>match_products\<close>)\<close>

text \<open>
  A listing is a dictionary; a field is \<open>None\<close> when its key is absent. The engine
  indexes \<open>product\<close>, \<open>site\<close> and \<open>price\<close> directly and reads the others with
  \<open>.get\<close> and a default.
\<close>

record listing =
  product :: "string option"
  site :: "string option"
  price :: "pyval option"
  volume :: "pyval option"
  category :: "string option"
  market_id :: "string option"
  description :: "string option"

record payload =
  original_product :: string
  p_price :: "pyval option"
  p_volume :: "pyval option"
  p_category :: string
  p_market_id :: string
  p_description :: string

record current_group =
  g_unified_name :: string
  products :: "listing list"
  g_confidence :: rat
  match_reasoning :: reasoning

record unified_entry =
  u_confidence :: rat
  u_match_reasoning :: reasoning
  product_count :: nat
  platforms :: "(string \<times> payload list) list"

definition get_default :: "'a option \<Rightarrow> 'a \<Rightarrow> 'a" where
  "get_default v d = (case v of None \<Rightarrow> d | Some x \<Rightarrow> x)"

text \<open>
  A dictionary keeps its keys in insertion order; assigning to a key that is present
  replaces the value in place.
\<close>

fun dict_set :: "('k \<times> 'v) list \<Rightarrow> 'k \<Rightarrow> 'v \<Rightarrow> ('k \<times> 'v) list" where
  "dict_set [] k v = [(k, v)]"
| "dict_set ((k', v') # d) k v = (if k' = k then (k, v) # d else (k', v') # dict_set d k v)"

definition accepted :: "verdict \<Rightarrow> bool" where
  "accepted similarity_result = (same_event similarity_result \<and> 65 / 100 < confidence similarity_result)"

text \<open>The loop over \<open>enumerate(raw_data[i+1:], i+1)\<close> for the anchor title \<open>p1\<close>.\<close>

fun inner_loop ::
    "(string \<Rightarrow> string \<Rightarrow> verdict) \<Rightarrow> string \<Rightarrow> (nat \<times> listing) list
     \<Rightarrow> current_group \<times> nat set \<Rightarrow> error + (current_group \<times> nat set)" where
  "inner_loop score p1 [] st = Inr st"
| "inner_loop score p1 ((j, entry2) # rest) (g, processed_indices) =
     (if j \<in> processed_indices then inner_loop score p1 rest (g, processed_indices)
      else
        (case product entry2 of
           None \<Rightarrow> Inl KeyError
         | Some p2 \<Rightarrow>
             (if accepted (score p1 p2) then
                inner_loop score p1 rest
                  (g\<lparr>products := products g @ [entry2],
                     g_unified_name := unified_name (score p1 p2),
                     g_confidence := min (g_confidence g) (confidence (score p1 p2)),
                     match_reasoning := get_default (reasoning (score p1 p2)) AI_powered_matching\<rparr>,
                   insert j processed_indices)
              else inner_loop score p1 rest (g, processed_indices))))"

text \<open>The loop that fills \<open>unified_entry['platforms']\<close>.\<close>

fun add_platforms :: "listing list \<Rightarrow> (string \<times> payload list) list \<Rightarrow> error + (string \<times> payload list) list" where
  "add_platforms [] plats = Inr plats"
| "add_platforms (p # ps) plats =
     (case site p of
        None \<Rightarrow> Inl KeyError
      | Some s \<Rightarrow>
          (let plats1 = (if map_of plats s = None then dict_set plats s [] else plats) in
           case product p of
             None \<Rightarrow> Inl KeyError
           | Some title \<Rightarrow>
               (case price p of
                  None \<Rightarrow> Inl KeyError
                | Some pr \<Rightarrow>
                    add_platforms ps
                      (dict_set plats1 s
                         (get_default (map_of plats1 s) [] @
                          [\<lparr>original_product = title,
                            p_price = Some pr,
                            p_volume = Some (get_default (volume p) (PyNum 0)),
                            p_category = get_default (category p) ''General'',
                            p_market_id = get_default (market_id p) [],
                            p_description = get_default (description p) []\<rparr>])))))"

definition finalize :: "current_group \<Rightarrow> error + (string \<times> unified_entry)" where
  "finalize g =
     (case add_platforms (products g) [] of
        Inl e \<Rightarrow> Inl e
      | Inr plats \<Rightarrow>
          Inr (g_unified_name g,
               \<lparr>u_confidence = py_round (g_confidence g) 3,
                u_match_reasoning = match_reasoning g,
                product_count = length (products g),
                platforms = plats\<rparr>))"

definition new_group :: "string \<Rightarrow> listing \<Rightarrow> current_group" where
  "new_group p1 entry1 =
     \<lparr>g_unified_name = p1, products = [entry1], g_confidence = 1, match_reasoning = Primary_product\<rparr>"

text \<open>The loop over \<open>enumerate(raw_data)\<close>.\<close>

fun outer_loop ::
    "(string \<Rightarrow> string \<Rightarrow> verdict) \<Rightarrow> listing list \<Rightarrow> (nat \<times> listing) list
     \<Rightarrow> (string \<times> unified_entry) list \<times> nat set
     \<Rightarrow> error + ((string \<times> unified_entry) list \<times> nat set)" where
  "outer_loop score raw_data [] st = Inr st"
| "outer_loop score raw_data ((i, entry1) # rest) (unified_products, processed_indices) =
     (if i \<in> processed_indices then
        outer_loop score raw_data rest (unified_products, processed_indices)
      else
        (case product entry1 of
           None \<Rightarrow> Inl KeyError
         | Some p1 \<Rightarrow>
             (case inner_loop score p1 (drop (Suc i) (enumerate 0 raw_data))
                     (new_group p1 entry1, processed_indices) of
                Inl e \<Rightarrow> Inl e
              | Inr (g, processed1) \<Rightarrow>
                  (case finalize g of
                     Inl e \<Rightarrow> Inl e
                   | Inr (name, unified_entry) \<Rightarrow>
                       outer_loop score raw_data rest
                         (dict_set unified_products name unified_entry, insert i processed1)))))"

definition match_products ::
    "(string \<Rightarrow> string \<Rightarrow> verdict) \<Rightarrow> listing list \<Rightarrow> error + (string \<times> unified_entry) list" where
  "match_products score raw_data =
     (if raw_data = [] then Inr []
      else
        (case outer_loop score raw_data (enumerate 0 raw_data) ([], {}) of
           Inl e \<Rightarrow> Inl e
         | Inr (unified_products, processed_indices) \<Rightarrow> Inr unified_products))"

section \<open>Aggregation (\<open>agents/rearrange_data.py\<close>)\<close>

text \<open>
  \<open>float(v)\<close>: a number is itself, \<open>None\<close> raises \<open>TypeError\<close>, and a string is
  parsed by the built-in parser, the parameter \<open>str_float\<close>, which gives no value
  where \<open>float\<close> raises \<open>ValueError\<close>.
\<close>

definition py_float :: "(string \<Rightarrow> rat option) \<Rightarrow> pyval \<Rightarrow> error + rat" where
  "py_float str_float v =
     (case v of
        PyNum r \<Rightarrow> Inr r
      | PyNone \<Rightarrow> Inl TypeError
      | PyStr s \<Rightarrow> (case str_float s of Some r \<Rightarrow> Inr r | None \<Rightarrow> Inl ValueError))"

text \<open>
  \<open>try: x = float(data.get(key, 0))  except (ValueError, TypeError): x = 0.0\<close>;
  any other exception leaves the function.
\<close>

definition coerce :: "(string \<Rightarrow> rat option) \<Rightarrow> pyval option \<Rightarrow> error + rat" where
  "coerce str_float field =
     (case py_float str_float (get_default field (PyNum 0)) of
        Inr x \<Rightarrow> Inr x
      | Inl e \<Rightarrow> (if e = ValueError \<or> e = TypeError then Inr 0 else Inl e))"

record extracted =
  prices :: "rat list"
  volumes :: "rat list"
  platform_prices :: "(string \<times> rat) list"

text \<open>The loop over \<open>platforms_data.items()\<close>.\<close>

fun extract_loop ::
    "(string \<Rightarrow> rat option) \<Rightarrow> (string \<times> payload list) list \<Rightarrow> extracted \<Rightarrow> error + extracted" where
  "extract_loop str_float [] acc = Inr acc"
| "extract_loop str_float ((platform, data_list) # rest) acc =
     (case data_list of
        [] \<Rightarrow> extract_loop str_float rest acc
      | data # _ \<Rightarrow>
          (case coerce str_float (p_price data) of
             Inl e \<Rightarrow> Inl e
           | Inr price_value \<Rightarrow>
               (case coerce str_float (p_volume data) of
                  Inl e \<Rightarrow> Inl e
                | Inr volume_value \<Rightarrow>
                    extract_loop str_float rest
                      \<lparr>prices = (if 0 < price_value then prices acc @ [price_value] else prices acc),
                       volumes = (if 0 < volume_value then volumes acc @ [volume_value] else volumes acc),
                       platform_prices =
                         (if 0 < price_value then dict_set (platform_prices acc) platform price_value
                          else platform_prices acc)\<rparr>)))"

record price_stats_rec =
  min_price :: rat
  max_price :: rat
  avg_price :: rat
  price_spread :: rat
  price_variance :: rat

record volume_stats_rec =
  total_volume :: rat
  avg_volume :: rat
  max_volume :: rat

record platform_coverage_rec =
  platforms_count :: nat
  platforms_list :: "string list"

record best_opportunities_rec =
  highest_probability_platform :: string
  highest_probability_price :: rat
  arbitrage_opportunity :: bool

text \<open>An empty dictionary of statistics is \<open>None\<close>.\<close>

record metrics =
  price_stats :: "price_stats_rec option"
  volume_stats :: "volume_stats_rec option"
  platform_coverage :: platform_coverage_rec
  best_opportunities :: "best_opportunities_rec option"

text \<open>\<open>min\<close>, \<open>max\<close> and \<open>sum\<close> of a list; the callers guard the empty list.\<close>

definition py_min :: "rat list \<Rightarrow> rat" where
  "py_min xs = fold min (tl xs) (hd xs)"

definition py_max :: "rat list \<Rightarrow> rat" where
  "py_max xs = fold max (tl xs) (hd xs)"

definition py_sum :: "rat list \<Rightarrow> rat" where
  "py_sum xs = fold (\<lambda>x acc. acc + x) xs 0"

text \<open>\<open>max(platform_prices, key=platform_prices.get)\<close>: the first key with the largest value.\<close>

fun max_by_value :: "(string \<times> rat) list \<Rightarrow> string \<times> rat \<Rightarrow> string \<times> rat" where
  "max_by_value [] best = best"
| "max_by_value ((k, v) # rest) best = max_by_value rest (if snd best < v then (k, v) else best)"

definition price_statistics :: "rat list \<Rightarrow> price_stats_rec" where
  "price_statistics ps =
     \<lparr>min_price = py_min ps,
      max_price = py_max ps,
      avg_price = py_sum ps / of_nat (length ps),
      price_spread = (if 1 < length ps then py_max ps - py_min ps else 0),
      price_variance =
        py_sum (map (\<lambda>p. (p - py_sum ps / of_nat (length ps))\<^sup>2) ps) / of_nat (length ps)\<rparr>"

definition best_of :: "rat list \<Rightarrow> (string \<times> rat) list \<Rightarrow> best_opportunities_rec option" where
  "best_of ps pp =
     (case pp of
        [] \<Rightarrow> None
      | first # rest \<Rightarrow>
          Some \<lparr>highest_probability_platform = fst (max_by_value rest first),
                highest_probability_price = snd (max_by_value rest first),
                arbitrage_opportunity = (5 / 100 < py_max ps - py_min ps)\<rparr>)"

definition calculate_advanced_metrics ::
    "(string \<Rightarrow> rat option) \<Rightarrow> (string \<times> payload list) list \<Rightarrow> error + metrics" where
  "calculate_advanced_metrics str_float platforms_data =
     (case extract_loop str_float platforms_data \<lparr>prices = [], volumes = [], platform_prices = []\<rparr> of
        Inl e \<Rightarrow> Inl e
      | Inr x \<Rightarrow>
          Inr \<lparr>price_stats = (if prices x \<noteq> [] then Some (price_statistics (prices x)) else None),
               volume_stats =
                 (if volumes x \<noteq> [] then
                    Some \<lparr>total_volume = py_sum (volumes x),
                          avg_volume = py_sum (volumes x) / of_nat (length (volumes x)),
                          max_volume = py_max (volumes x)\<rparr>
                  else None),
               platform_coverage =
                 \<lparr>platforms_count = length platforms_data, platforms_list = map fst platforms_data\<rparr>,
               best_opportunities = (if prices x \<noteq> [] then best_of (prices x) (platform_prices x) else None)\<rparr>)"

section \<open>Observations and sample data\<close>

text \<open>A listing with the three mandatory keys and none of the optional ones.\<close>

definition listing_of :: "string \<Rightarrow> string \<Rightarrow> rat \<Rightarrow> listing" where
  "listing_of platform title p =
     \<lparr>product = Some title, site = Some platform, price = Some (PyNum p), volume = None,
      category = None, market_id = None, description = None\<rparr>"


text \<open>The number of per-platform payloads over all groups of a result mapping.\<close>

definition payload_total :: "(string \<times> unified_entry) list \<Rightarrow> nat" where
  "payload_total unified_products =
     sum_list (map (\<lambda>(name, e). sum_list (map (\<lambda>(s, ps). length ps) (platforms e))) unified_products)"

text \<open>The lexical scorer with the sequence ratio of the previous section.\<close>

definition lexical_scorer :: "string \<Rightarrow> string \<Rightarrow> verdict" where
  "lexical_scorer = calculate_similarity_rule_based sequence_ratio"

text \<open>
  The aggregation in the spec's words: of each platform only the first payload is
  read; a price or volume is its numeric coercion (0 where the value is missing or
  not a number); the statistics are taken over the coercions that are strictly
  positive. The functions below state this, to be compared with \<open>extract_loop\<close>.
\<close>

definition numeric :: "(string \<Rightarrow> rat option) \<Rightarrow> pyval option \<Rightarrow> rat" where
  "numeric str_float field = (case coerce str_float field of Inr x \<Rightarrow> x | Inl e \<Rightarrow> 0)"

fun first_payloads :: "(string \<times> payload list) list \<Rightarrow> (string \<times> payload) list" where
  "first_payloads [] = []"
| "first_payloads ((platform, []) # rest) = first_payloads rest"
| "first_payloads ((platform, data # others) # rest) = (platform, data) # first_payloads rest"

definition positive_prices :: "(string \<Rightarrow> rat option) \<Rightarrow> (string \<times> payload list) list \<Rightarrow> (string \<times> rat) list" where
  "positive_prices str_float platforms_data =
     filter (\<lambda>(platform, v). 0 < v)
       (map (\<lambda>(platform, data). (platform, numeric str_float (p_price data))) (first_payloads platforms_data))"

definition positive_volumes :: "(string \<Rightarrow> rat option) \<Rightarrow> (string \<times> payload list) list \<Rightarrow> rat list" where
  "positive_volumes str_float platforms_data =
     filter (\<lambda>v. 0 < v) (map (\<lambda>(platform, data). numeric str_float (p_volume data)) (first_payloads platforms_data))"

text \<open>A payload with a title and a price, as \<open>match_products\<close> builds it.\<close>

definition payload_of :: "string \<Rightarrow> pyval \<Rightarrow> payload" where
  "payload_of title p =
     \<lparr>original_product = title, p_price = Some p, p_volume = Some (PyNum 0),
      p_category = ''General'', p_market_id = [], p_description = []\<rparr>"



section \<open>Properties\<close>

subsection \<open>Normalizer\<close>

text \<open>
  Claim C3 (normalization idempotence). The claim says that normalizing twice is
  the same as normalizing once. On the title \<open>trump\<close> the normalizer gives
  \<open>donald trump\<close>, and on that result it gives \<open>donald donald trump\<close>: the synonym
  table expands a key into a phrase that contains the key again, so a title that is
  already in the canonical form, such as \<open>Donald Trump\<close>, is expanded as well.
\<close>

theorem normalize_twice_trump:
  "normalize_product_name ''trump'' = ''donald trump''
   \<and> normalize_product_name (normalize_product_name ''trump'') = ''donald donald trump''
   \<and> normalize_product_name ''Donald Trump'' = ''donald donald trump''"
  by code_simp

subsection \<open>Lexical scorer\<close>












subsection \<open>Semantic scorer\<close>

text \<open>
  Claim C6 (scorer degradation). When the credential is missing or empty, when the
  call to the external model raises, when its answer holds no brace-delimited text,
  or when that text does not decode, \<open>calculate_similarity_llm\<close> returns the verdict
  of the lexical scorer for the pair. The function returns a verdict in every case:
  each exception of the \<open>try\<close> body is handled.
\<close>

theorem semantic_failure_falls_back:
  assumes "api_key = None \<or> api_key = Some []
         \<or> (\<exists>e. completion product1 product2 = Inl e)
         \<or> (\<exists>content. completion product1 product2 = Inr content
               \<and> (re_search_json (py_strip content) = None
                    \<or> (\<exists>m e. re_search_json (py_strip content) = Some m \<and> json_loads m = Inl e)))"
  shows "calculate_similarity_llm api_key completion json_loads ratio product1 product2
           = calculate_similarity_rule_based ratio product1 product2"
  using assms
  by (auto simp: calculate_similarity_llm_def llm_attempt_def split: sum.splits option.splits)

theorem semantic_failure_falls_back_witness:
  "re_search_json (py_strip ''I cannot compare these.'') = None
   \<and> calculate_similarity_llm (Some ''key'') (\<lambda>a b. Inr ''I cannot compare these.'')
        (\<lambda>m. Inl ValueError) sequence_ratio ''Rain'' ''Snow''
       = calculate_similarity_rule_based sequence_ratio ''Rain'' ''Snow''"
proof -
  have h: "re_search_json (py_strip ''I cannot compare these.'') = None" by code_simp
  have "(\<exists>content. (\<lambda>a b. Inr ''I cannot compare these.'' :: error + string) ''Rain'' ''Snow'' = Inr content
               \<and> (re_search_json (py_strip content) = None
                    \<or> (\<exists>m e. re_search_json (py_strip content) = Some m
                          \<and> (\<lambda>m. Inl ValueError :: error + verdict) m = Inl e)))"
    using h by blast
  then show ?thesis
    using semantic_failure_falls_back [of "Some ''key''" "\<lambda>a b. Inr ''I cannot compare these.''"
        "''Rain''" "''Snow''" "\<lambda>m. Inl ValueError" sequence_ratio] h
    by blast
qed

subsection \<open>Engine\<close>










text \<open>
  Claim C1 (partition property). Two listings with the title \<open>Is it on\<close> are not
  merged (the title has no keyword, the pair scores 0.3), both groups finalize to the
  name \<open>Is it on\<close>, and the second assignment to that key replaces the first group:
  the result mapping holds one payload for a batch of two listings.
\<close>

theorem collision_drops_listing:
  "match_products lexical_scorer
     [listing_of ''Polymarket'' ''Is it on'' (1 / 2), listing_of ''Kalshi'' ''Is it on'' (3 / 5)]
   = Inr [(''Is it on'',
           \<lparr>u_confidence = 1, u_match_reasoning = Primary_product, product_count = 1,
            platforms = [(''Kalshi'',
              [\<lparr>original_product = ''Is it on'', p_price = Some (PyNum (3 / 5)),
                p_volume = Some (PyNum 0), p_category = ''General'', p_market_id = [],
                p_description = []\<rparr>])]\<rparr>)]
   \<and> map_sum id payload_total
        (match_products lexical_scorer
           [listing_of ''Polymarket'' ''Is it on'' (1 / 2), listing_of ''Kalshi'' ''Is it on'' (3 / 5)])
       = Inr 1"
proof -
  have 1: "match_products lexical_scorer
     [listing_of ''Polymarket'' ''Is it on'' (1 / 2), listing_of ''Kalshi'' ''Is it on'' (3 / 5)]
   = Inr [(''Is it on'',
           \<lparr>u_confidence = 1, u_match_reasoning = Primary_product, product_count = 1,
            platforms = [(''Kalshi'',
              [\<lparr>original_product = ''Is it on'', p_price = Some (PyNum (3 / 5)),
                p_volume = Some (PyNum 0), p_category = ''General'', p_market_id = [],
                p_description = []\<rparr>])]\<rparr>)]"
    by code_simp
  have 2: "map_sum id payload_total
        (match_products lexical_scorer
           [listing_of ''Polymarket'' ''Is it on'' (1 / 2), listing_of ''Kalshi'' ''Is it on'' (3 / 5)])
       = Inr 1"
    by code_simp
  from 1 2 show ?thesis by blast
qed

subsection \<open>Aggregation\<close>

lemma coerce_total: "coerce str_float field = Inr (numeric str_float field)"
  by (auto simp: coerce_def numeric_def py_float_def split: pyval.splits option.splits sum.splits)

lemma extract_loop_eq:
  "extract_loop str_float platforms_data acc =
     Inr \<lparr>prices = prices acc @ map snd (positive_prices str_float platforms_data),
          volumes = volumes acc @ positive_volumes str_float platforms_data,
          platform_prices = fold (\<lambda>(platform, v) d. dict_set d platform v)
                              (positive_prices str_float platforms_data) (platform_prices acc)\<rparr>"
proof (induction platforms_data arbitrary: acc)
  case Nil
  then show ?case by (simp add: positive_prices_def positive_volumes_def)
next
  case (Cons a rest)
  obtain platform data_list where a: "a = (platform, data_list)" by (cases a)
  show ?case
  proof (cases data_list)
    case Nil
    then show ?thesis using Cons.IH a by (simp add: positive_prices_def positive_volumes_def)
  next
    case (Cons data others)
    then show ?thesis
      using Cons.IH a by (simp add: positive_prices_def positive_volumes_def coerce_total)
  qed
qed


lemma fst_set_dict_set: "fst ` set (dict_set d k v) = insert k (fst ` set d)"
  by (induction d k v rule: dict_set.induct) auto

lemma fst_set_fold_dict_set:
  "fst ` set (fold (\<lambda>(platform, v) d. dict_set d platform v) kvs d) = fst ` set kvs \<union> fst ` set d"
proof (induction kvs arbitrary: d)
  case Nil
  show ?case by simp
next
  case (Cons kv kvs)
  obtain k v where kv: "kv = (k, v)" by (cases kv)
  show ?case by (simp add: kv Cons.IH fst_set_dict_set)
qed

lemma max_by_value_mem: "max_by_value rest best \<in> set (best # rest)"
  by (induction rest best rule: max_by_value.induct) auto

lemma fst_first_payloads: "fst ` set (first_payloads platforms_data) \<subseteq> fst ` set platforms_data"
  by (induction platforms_data rule: first_payloads.induct) auto

lemma first_payloads_append:
  "first_payloads (xs @ ys) = first_payloads xs @ first_payloads ys"
  by (induction xs rule: first_payloads.induct) auto

lemma fst_positive_prices:
  assumes "k \<in> fst ` set (positive_prices str_float platforms_data)"
  shows "k \<in> fst ` set platforms_data"
proof -
  from assms obtain d where "(k, d) \<in> set (first_payloads platforms_data)"
    by (auto simp: positive_prices_def)
  then have "k \<in> fst ` set (first_payloads platforms_data)" by force
  then show ?thesis using fst_first_payloads by blast
qed

lemma calculate_advanced_metrics_eq:
  "calculate_advanced_metrics str_float platforms_data =
     Inr \<lparr>price_stats =
            (if positive_prices str_float platforms_data \<noteq> []
             then Some (price_statistics (map snd (positive_prices str_float platforms_data))) else None),
          volume_stats =
            (if positive_volumes str_float platforms_data \<noteq> [] then
               Some \<lparr>total_volume = py_sum (positive_volumes str_float platforms_data),
                     avg_volume = py_sum (positive_volumes str_float platforms_data)
                                    / of_nat (length (positive_volumes str_float platforms_data)),
                     max_volume = py_max (positive_volumes str_float platforms_data)\<rparr>
             else None),
          platform_coverage =
            \<lparr>platforms_count = length platforms_data, platforms_list = map fst platforms_data\<rparr>,
          best_opportunities =
            (if positive_prices str_float platforms_data \<noteq> []
             then best_of (map snd (positive_prices str_float platforms_data))
                    (fold (\<lambda>(platform, v) d. dict_set d platform v)
                       (positive_prices str_float platforms_data) [])
             else None)\<rparr>"
  by (simp add: calculate_advanced_metrics_def extract_loop_eq)

lemma best_platform_mem:
  assumes "best_of ps (fold (\<lambda>(platform, v) d. dict_set d platform v) kvs []) = Some b"
  shows "highest_probability_platform b \<in> fst ` set kvs"
proof -
  let ?d = "fold (\<lambda>(platform, v) d. dict_set d platform v) kvs []"
  from assms obtain first rest where d: "?d = first # rest"
    and b: "highest_probability_platform b = fst (max_by_value rest first)"
    by (auto simp: best_of_def split: list.splits)
  have "max_by_value rest first \<in> set ?d" using max_by_value_mem [of rest first] d by simp
  then have "fst (max_by_value rest first) \<in> fst ` set ?d" by blast
  then show ?thesis using b fst_set_fold_dict_set [of kvs "[]"] by simp
qed



text \<open>
  Claim C8 (aggregation numeric safety), as amended. When the first payload of a
  platform has a price that is a string \<open>float\<close> rejects, the aggregation returns
  (does not raise), its price statistics and its \<open>best_opportunities\<close> are those of the
  mapping without this platform, and the platform is not the one in
  \<open>best_opportunities\<close>. The keys of a mapping are distinct.
\<close>

theorem non_numeric_first_payload_excluded:
  assumes "p_price data = Some (PyStr s)" and "str_float s = None"
    and "distinct (map fst (before @ (platform, data # others) # after))"
  shows "\<exists>m m'. calculate_advanced_metrics str_float (before @ (platform, data # others) # after) = Inr m
           \<and> calculate_advanced_metrics str_float (before @ after) = Inr m'
           \<and> price_stats m = price_stats m'
           \<and> best_opportunities m = best_opportunities m'
           \<and> (\<forall>b. best_opportunities m = Some b \<longrightarrow> highest_probability_platform b \<noteq> platform)"
proof -
  have "numeric str_float (p_price data) = 0"
    using assms(1,2) by (simp add: numeric_def coerce_def py_float_def get_default_def)
  then have pp: "positive_prices str_float (before @ (platform, data # others) # after)
               = positive_prices str_float (before @ after)"
    by (simp add: positive_prices_def first_payloads_append)
  have notin: "platform \<notin> fst ` set (before @ after)"
    using assms(3) by auto
  have "highest_probability_platform b \<noteq> platform"
    if "best_of ps (fold (\<lambda>(platform, v) d. dict_set d platform v)
                      (positive_prices str_float (before @ after)) []) = Some b" for ps b
    using best_platform_mem [OF that] fst_positive_prices [of _ str_float "before @ after"] notin
    by blast
  then show ?thesis
    by (simp add: calculate_advanced_metrics_eq pp split: if_splits)
qed

theorem non_numeric_first_payload_excluded_witness:
  "p_price (payload_of ''Rain'' (PyStr ''N/A'')) = Some (PyStr ''N/A'')
   \<and> (\<lambda>s. None :: rat option) ''N/A'' = None
   \<and> distinct (map fst ([(''Polymarket'', [payload_of ''Rain'' (PyNum (62 / 100))])]
        @ (''Kalshi'', payload_of ''Rain'' (PyStr ''N/A'') # []) # [(''Manifold'', [payload_of ''Rain'' (PyNum (55 / 100))])]))
   \<and> (\<exists>m m'. calculate_advanced_metrics (\<lambda>s. None)
          ([(''Polymarket'', [payload_of ''Rain'' (PyNum (62 / 100))])]
             @ (''Kalshi'', payload_of ''Rain'' (PyStr ''N/A'') # [])
               # [(''Manifold'', [payload_of ''Rain'' (PyNum (55 / 100))])]) = Inr m
        \<and> calculate_advanced_metrics (\<lambda>s. None)
          ([(''Polymarket'', [payload_of ''Rain'' (PyNum (62 / 100))])]
             @ [(''Manifold'', [payload_of ''Rain'' (PyNum (55 / 100))])]) = Inr m'
        \<and> price_stats m = price_stats m'
        \<and> best_opportunities m = best_opportunities m'
        \<and> (\<forall>b. best_opportunities m = Some b \<longrightarrow> highest_probability_platform b \<noteq> ''Kalshi''))"
proof -
  have h1: "p_price (payload_of ''Rain'' (PyStr ''N/A'')) = Some (PyStr ''N/A'')"
    by (simp add: payload_of_def)
  have h2: "(\<lambda>s. None :: rat option) ''N/A'' = None" by simp
  have h3: "distinct (map fst ([(''Polymarket'', [payload_of ''Rain'' (PyNum (62 / 100))])]
        @ (''Kalshi'', payload_of ''Rain'' (PyStr ''N/A'') # []) # [(''Manifold'', [payload_of ''Rain'' (PyNum (55 / 100))])]))"
    by simp
  from non_numeric_first_payload_excluded [OF h1 h2 h3] h1 h3 show ?thesis by simp
qed

text \<open>
  Only the first payload of a platform is read. With a numeric first payload and a
  non-numeric second one, the platform of the non-numeric payload is the one in
  \<open>best_opportunities\<close>: the claim as stated, for every payload, fails here.
\<close>

theorem non_numeric_later_payload_counterexample:
  "map_sum id (\<lambda>m. map_option highest_probability_platform (best_opportunities m))
     (calculate_advanced_metrics (\<lambda>s. None)
        [(''Kalshi'', [payload_of ''Rain'' (PyNum (9 / 10)), payload_of ''Rain'' (PyStr ''N/A'')])])
   = Inr (Some ''Kalshi'')"
  by code_simp


subsection \<open>Group confidence\<close>









end
